theory Spec2Isabelle
  imports Complex_Main
begin

section \<open>JavaScript numbers and nullable fields\<close>

text \<open>
  A JavaScript \<^verbatim>\<open>number\<close> is modelled as an exact real, or one of the three special
  values \<^verbatim>\<open>Infinity\<close>, \<^verbatim>\<open>-Infinity\<close> and \<^verbatim>\<open>NaN\<close>. The arithmetic follows the
  language's rules for the special values; rounding to 64-bit binary floating point and
  the sign of zero are not modelled: a finite result is the exact real result.
\<close>

datatype jsnum = Fin real | PInf | NInf | NaN

instantiation jsnum :: plus
begin

fun plus_jsnum :: "jsnum \<Rightarrow> jsnum \<Rightarrow> jsnum" where
  "plus_jsnum (Fin a) (Fin b) = Fin (a + b)"
| "plus_jsnum NaN y = NaN"
| "plus_jsnum x NaN = NaN"
| "plus_jsnum PInf NInf = NaN"
| "plus_jsnum NInf PInf = NaN"
| "plus_jsnum PInf y = PInf"
| "plus_jsnum x PInf = PInf"
| "plus_jsnum NInf y = NInf"
| "plus_jsnum x NInf = NInf"

instance ..

end

instantiation jsnum :: minus
begin

fun minus_jsnum :: "jsnum \<Rightarrow> jsnum \<Rightarrow> jsnum" where
  "minus_jsnum (Fin a) (Fin b) = Fin (a - b)"
| "minus_jsnum NaN y = NaN"
| "minus_jsnum x NaN = NaN"
| "minus_jsnum PInf PInf = NaN"
| "minus_jsnum NInf NInf = NaN"
| "minus_jsnum PInf y = PInf"
| "minus_jsnum x NInf = PInf"
| "minus_jsnum NInf y = NInf"
| "minus_jsnum x PInf = NInf"

instance ..

end

text \<open>The infinity with the sign of a nonzero real, and with the opposite sign.\<close>

definition inf_of_sign :: "real \<Rightarrow> jsnum" where
  "inf_of_sign a = (if a = 0 then NaN else if 0 < a then PInf else NInf)"

instantiation jsnum :: times
begin

fun times_jsnum :: "jsnum \<Rightarrow> jsnum \<Rightarrow> jsnum" where
  "times_jsnum (Fin a) (Fin b) = Fin (a * b)"
| "times_jsnum NaN y = NaN"
| "times_jsnum x NaN = NaN"
| "times_jsnum (Fin a) PInf = inf_of_sign a"
| "times_jsnum (Fin a) NInf = inf_of_sign (- a)"
| "times_jsnum PInf (Fin b) = inf_of_sign b"
| "times_jsnum NInf (Fin b) = inf_of_sign (- b)"
| "times_jsnum PInf PInf = PInf"
| "times_jsnum NInf NInf = PInf"
| "times_jsnum PInf NInf = NInf"
| "times_jsnum NInf PInf = NInf"

instance ..

end

instantiation jsnum :: inverse
begin

text \<open>
  Division by a zero divisor gives \<^verbatim>\<open>NaN\<close> for a zero dividend and an infinity
  otherwise (the zero divisor is taken as \<^verbatim>\<open>+0\<close>).
\<close>

fun divide_jsnum :: "jsnum \<Rightarrow> jsnum \<Rightarrow> jsnum" where
  "divide_jsnum (Fin a) (Fin b) = (if b = 0 then inf_of_sign a else Fin (a / b))"
| "divide_jsnum NaN y = NaN"
| "divide_jsnum x NaN = NaN"
| "divide_jsnum (Fin a) PInf = Fin 0"
| "divide_jsnum (Fin a) NInf = Fin 0"
| "divide_jsnum PInf (Fin b) = (if 0 \<le> b then PInf else NInf)"
| "divide_jsnum NInf (Fin b) = (if 0 \<le> b then NInf else PInf)"
| "divide_jsnum PInf y = NaN"
| "divide_jsnum NInf y = NaN"

fun inverse_jsnum :: "jsnum \<Rightarrow> jsnum" where
  "inverse_jsnum (Fin b) = (if b = 0 then PInf else Fin (1 / b))"
| "inverse_jsnum NaN = NaN"
| "inverse_jsnum PInf = Fin 0"
| "inverse_jsnum NInf = Fin 0"

instance ..

end

instantiation jsnum :: ord
begin

text \<open>Every comparison with \<^verbatim>\<open>NaN\<close> is false.\<close>

fun less_jsnum :: "jsnum \<Rightarrow> jsnum \<Rightarrow> bool" where
  "less_jsnum (Fin a) (Fin b) = (a < b)"
| "less_jsnum NaN y = False"
| "less_jsnum x NaN = False"
| "less_jsnum x NInf = False"
| "less_jsnum PInf y = False"
| "less_jsnum NInf y = True"
| "less_jsnum x PInf = True"

fun less_eq_jsnum :: "jsnum \<Rightarrow> jsnum \<Rightarrow> bool" where
  "less_eq_jsnum (Fin a) (Fin b) = (a \<le> b)"
| "less_eq_jsnum NaN y = False"
| "less_eq_jsnum x NaN = False"
| "less_eq_jsnum NInf y = True"
| "less_eq_jsnum x PInf = True"
| "less_eq_jsnum x NInf = False"
| "less_eq_jsnum PInf y = False"

instance ..

end

text \<open>
  A field that may hold a number, \<^verbatim>\<open>null\<close>, or be absent (\<^verbatim>\<open>undefined\<close>).
\<close>

datatype jsval = JNum jsnum | JNull | JUndefined

text \<open>A number is truthy unless it is zero or \<^verbatim>\<open>NaN\<close>.\<close>

definition truthy :: "jsnum \<Rightarrow> bool" where
  "truthy n = (n \<noteq> Fin 0 \<and> n \<noteq> NaN)"

text \<open>The expression \<^verbatim>\<open>v || d\<close> for a numeric default \<open>d\<close>.\<close>

fun or_default :: "jsval \<Rightarrow> jsnum \<Rightarrow> jsnum" where
  "or_default (JNum n) d = (if truthy n then n else d)"
| "or_default JNull d = d"
| "or_default JUndefined d = d"

text \<open>The implicit conversion of an operand of an arithmetic operator.\<close>

fun to_number :: "jsval \<Rightarrow> jsnum" where
  "to_number (JNum n) = n"
| "to_number JNull = Fin 0"
| "to_number JUndefined = NaN"

section \<open>Data model (src/types.ts)\<close>

text \<open>
  The interface \<^verbatim>\<open>Investment\<close>. The field \<^verbatim>\<open>id\<close> is named \<open>inv_id\<close>. The fields
  that the computations guard with \<^verbatim>\<open>|| 0\<close> or \<^verbatim>\<open>|| 1\<close> may be \<^verbatim>\<open>null\<close> or absent.
\<close>

record investment =
  inv_id :: int
  symbol :: string
  name :: string
  currency :: string
  currentPrice :: jsval
  exchangeRate :: jsval
  overrideShares :: jsval
  initialPurchasePrice :: jsval
  targetAllocation :: jsnum
  lastUpdated :: "int option"
  dataSource :: "string option"

text \<open>
  The interface \<^verbatim>\<open>AssetAccount\<close>; its fields \<^verbatim>\<open>id\<close>, \<^verbatim>\<open>name\<close>, \<^verbatim>\<open>currency\<close> and
  \<^verbatim>\<open>exchangeRate\<close> carry the prefix \<open>acc_\<close>.
\<close>

record assetAccount =
  acc_id :: int
  acc_name :: string
  acc_currency :: string
  amount :: jsval
  acc_exchangeRate :: jsval
  autoFromInvestments :: "bool option"

datatype base_currency = HKD | TWD

text \<open>The state of the component \<^verbatim>\<open>App\<close> (the \<^verbatim>\<open>useState\<close> cells the computations read).\<close>

record app =
  investments :: "investment list"
  accounts :: "assetAccount list"
  monthlyBudget :: jsnum
  baseCurrency :: base_currency
  hkdTwdRate :: jsnum
  isUpdating :: bool
  sources :: "string list"

text \<open>The objects built by \<^verbatim>\<open>invDetails\<close>, \<^verbatim>\<open>processedAccounts\<close> and \<^verbatim>\<open>rebalanceAdvice\<close>:
  the spread of the input object, extended with the computed fields.\<close>

record inv_detail = investment +
  shares :: jsnum
  buyPrice :: jsnum
  costBase :: jsnum
  valueBase :: jsnum
  profitBase :: jsnum
  profitPct :: jsnum

record processed_account = assetAccount +
  amountBase :: jsnum

record advice = inv_detail +
  suggest :: jsnum
  gap :: jsnum
  currentPct :: jsnum

section \<open>Valuation pipeline (App, lines 208 to 264 and 317)\<close>

definition toBase :: "app \<Rightarrow> jsnum \<Rightarrow> jsnum" where
  "toBase s hkdValue = (if baseCurrency s = HKD then hkdValue else hkdValue * hkdTwdRate s)"

text \<open>
  The local constants of the callback of \<^verbatim>\<open>invDetails\<close>, one definition each. A
  local that shares its name with a field carries the suffix \<open>_of\<close>, and the
  parameter \<^verbatim>\<open>inv\<close> is written \<open>iv\<close>.
\<close>

definition shares_of :: "'a investment_scheme \<Rightarrow> jsnum" where
  "shares_of iv = or_default (overrideShares iv) (Fin 0)"

definition rateToHkd :: "'a investment_scheme \<Rightarrow> jsnum" where
  "rateToHkd iv = or_default (exchangeRate iv) (Fin 1)"

definition currentPrice_of :: "'a investment_scheme \<Rightarrow> jsnum" where
  "currentPrice_of iv = or_default (currentPrice iv) (Fin 0)"

definition buyPrice_of :: "'a investment_scheme \<Rightarrow> jsnum" where
  "buyPrice_of iv = or_default (initialPurchasePrice iv) (Fin 0)"

definition valueHKD :: "'a investment_scheme \<Rightarrow> jsnum" where
  "valueHKD iv = shares_of iv * currentPrice_of iv * rateToHkd iv"

definition costHKD :: "'a investment_scheme \<Rightarrow> jsnum" where
  "costHKD iv = shares_of iv * buyPrice_of iv * rateToHkd iv"

definition profitHKD :: "'a investment_scheme \<Rightarrow> jsnum" where
  "profitHKD iv = valueHKD iv - costHKD iv"

definition profitPct_of :: "'a investment_scheme \<Rightarrow> jsnum" where
  "profitPct_of iv =
     (if Fin 0 < costHKD iv then (profitHKD iv / costHKD iv) * Fin 100 else Fin 0)"

definition invDetail :: "app \<Rightarrow> investment \<Rightarrow> inv_detail" where
  "invDetail s iv = investment.extend iv
     \<lparr> shares = shares_of iv,
       buyPrice = buyPrice_of iv,
       costBase = toBase s (costHKD iv),
       valueBase = toBase s (valueHKD iv),
       profitBase = toBase s (profitHKD iv),
       profitPct = profitPct_of iv \<rparr>"

definition invDetails :: "app \<Rightarrow> inv_detail list" where
  "invDetails s = map (invDetail s) (investments s)"

definition totalInvBase :: "app \<Rightarrow> jsnum" where
  "totalInvBase s = foldl (\<lambda>t i. t + valueBase i) (Fin 0) (invDetails s)"

text \<open>The local constants of the callback of \<^verbatim>\<open>processedAccounts\<close>.\<close>

definition acc_rateToHkd :: "'a assetAccount_scheme \<Rightarrow> jsnum" where
  "acc_rateToHkd acc = or_default (acc_exchangeRate acc) (Fin 1)"

definition totalInvHKD :: "app \<Rightarrow> jsnum" where
  "totalInvHKD s = totalInvBase s / (if baseCurrency s = HKD then Fin 1 else hkdTwdRate s)"

definition amount_of :: "app \<Rightarrow> 'a assetAccount_scheme \<Rightarrow> jsnum" where
  "amount_of s acc =
     (if autoFromInvestments acc = Some True then totalInvHKD s / acc_rateToHkd acc
      else or_default (amount acc) (Fin 0))"

definition amountHKD :: "app \<Rightarrow> 'a assetAccount_scheme \<Rightarrow> jsnum" where
  "amountHKD s acc = amount_of s acc * acc_rateToHkd acc"

definition processAccount :: "app \<Rightarrow> assetAccount \<Rightarrow> processed_account" where
  "processAccount s acc = assetAccount.extend (acc\<lparr>amount := JNum (amount_of s acc)\<rparr>)
     \<lparr> amountBase = toBase s (amountHKD s acc) \<rparr>"

definition processedAccounts :: "app \<Rightarrow> processed_account list" where
  "processedAccounts s = map (processAccount s) (accounts s)"

definition totalAssetsBase :: "app \<Rightarrow> jsnum" where
  "totalAssetsBase s = foldl (\<lambda>t a. t + amountBase a) (Fin 0) (processedAccounts s)"

text \<open>The liquid-cash card shows \<^verbatim>\<open>totalAssetsBase - totalInvBase\<close> (line 317).\<close>

definition liquidCashBase :: "app \<Rightarrow> jsnum" where
  "liquidCashBase s = totalAssetsBase s - totalInvBase s"

definition totalFutureValueBase :: "app \<Rightarrow> jsnum" where
  "totalFutureValueBase s = totalInvBase s + toBase s (monthlyBudget s)"

text \<open>The local constants of the callback of \<^verbatim>\<open>rebalanceAdvice\<close>. The price is read
  without a default here: \<^verbatim>\<open>inv.currentPrice * (inv.exchangeRate || 1)\<close>.\<close>

definition targetVal :: "app \<Rightarrow> 'a inv_detail_scheme \<Rightarrow> jsnum" where
  "targetVal s iv = (targetAllocation iv / Fin 100) * totalFutureValueBase s"

definition gap_of :: "app \<Rightarrow> 'a inv_detail_scheme \<Rightarrow> jsnum" where
  "gap_of s iv = targetVal s iv - valueBase iv"

definition priceHKD :: "'a investment_scheme \<Rightarrow> jsnum" where
  "priceHKD iv = to_number (currentPrice iv) * or_default (exchangeRate iv) (Fin 1)"

definition priceBase :: "app \<Rightarrow> 'a investment_scheme \<Rightarrow> jsnum" where
  "priceBase s iv = toBase s (priceHKD iv)"

definition suggest_of :: "app \<Rightarrow> 'a inv_detail_scheme \<Rightarrow> jsnum" where
  "suggest_of s iv = (if Fin 0 < priceBase s iv then gap_of s iv / priceBase s iv else Fin 0)"

definition currentPct_of :: "app \<Rightarrow> 'a inv_detail_scheme \<Rightarrow> jsnum" where
  "currentPct_of s iv =
     (if Fin 0 < totalInvBase s then (valueBase iv / totalInvBase s) * Fin 100 else Fin 0)"

definition advise :: "app \<Rightarrow> inv_detail \<Rightarrow> advice" where
  "advise s iv = inv_detail.extend iv
     \<lparr> suggest = suggest_of s iv, gap = gap_of s iv, currentPct = currentPct_of s iv \<rparr>"

definition rebalanceAdvice :: "app \<Rightarrow> advice list" where
  "rebalanceAdvice s = map (advise s) (invDetails s)"

section \<open>Batch refresh (PriceService and syncAll, lines 36 to 98 and 180 to 206)\<close>

text \<open>
  The lookup service is outside the program. Its answers are a parameter: the outcome of
  the rate request (\<open>None\<close> when the request or the parsing throws), the outcome of the
  price request made at loop index \<open>i\<close> for a symbol (\<open>None\<close> for the \<^verbatim>\<open>null\<close> that
  \<^verbatim>\<open>fetchRealtimePrice\<close> returns on any failure), and the clock read at that index.
\<close>

record price_result =
  price :: jsnum
  res_name :: string
  res_currency :: string
  sourceUrls :: "string list"

record service =
  rateResponse :: "jsval option"
  priceResponse :: "nat \<Rightarrow> string \<Rightarrow> price_result option"
  now :: "nat \<Rightarrow> int"

definition fetchHkdTwdRate :: "service \<Rightarrow> jsnum" where
  "fetchHkdTwdRate env =
     (case rateResponse env of None \<Rightarrow> Fin 4.15 | Some r \<Rightarrow> or_default r (Fin 4.15))"

definition fetchRealtimePrice :: "service \<Rightarrow> nat \<Rightarrow> string \<Rightarrow> price_result option" where
  "fetchRealtimePrice env i ticker = priceResponse env i ticker"

text \<open>The object written to \<^verbatim>\<open>newInvestments[i]\<close> when the lookup succeeds.\<close>

definition refreshed :: "service \<Rightarrow> nat \<Rightarrow> price_result \<Rightarrow> investment \<Rightarrow> investment" where
  "refreshed env i res iv =
     iv\<lparr> currentPrice := JNum (price res),
        name := res_name res,
        currency := res_currency res,
        lastUpdated := Some (now env i),
        dataSource := Some ''Google Search API'' \<rparr>"

text \<open>The \<^verbatim>\<open>for\<close> loop of \<^verbatim>\<open>syncAll\<close>, from index \<open>i\<close> on.\<close>

function syncLoop ::
  "service \<Rightarrow> nat \<Rightarrow> investment list \<Rightarrow> string list \<Rightarrow> investment list \<times> string list" where
  "syncLoop env i newInvestments allSources =
     (if i < length newInvestments then
        (case fetchRealtimePrice env i (symbol (newInvestments ! i)) of
           Some res \<Rightarrow>
             syncLoop env (i + 1)
               (newInvestments[i := refreshed env i res (newInvestments ! i)])
               (allSources @ sourceUrls res)
         | None \<Rightarrow> syncLoop env (i + 1) newInvestments allSources)
      else (newInvestments, allSources))"
  by pat_completeness auto
termination
  by (relation "measure (\<lambda>(env, i, newInvestments, allSources). length newInvestments - i)") auto

text \<open>\<^verbatim>\<open>Array.from(new Set(xs))\<close>: the first occurrence of each element, in order.\<close>

definition dedupe :: "'a list \<Rightarrow> 'a list" where
  "dedupe xs = rev (remdups (rev xs))"

text \<open>
  What a call of \<^verbatim>\<open>syncAll\<close> writes once its requests are answered. The positions it
  starts from are the ones of the render in which it was called.
\<close>

definition syncAll_finish :: "service \<Rightarrow> investment list \<Rightarrow> app \<Rightarrow> app" where
  "syncAll_finish env captured s =
     (case syncLoop env 0 captured [] of
        (newInvestments, allSources) \<Rightarrow>
          s\<lparr> hkdTwdRate := fetchHkdTwdRate env,
             investments := newInvestments,
             sources := dedupe allSources,
             isUpdating := False \<rparr>)"

text \<open>A call of \<^verbatim>\<open>syncAll\<close> that runs to its end with no other event in between.\<close>

definition syncAll :: "service \<Rightarrow> app \<Rightarrow> app" where
  "syncAll env s = syncAll_finish env (investments s) (s\<lparr>isUpdating := True\<rparr>)"

subsection \<open>Events while a refresh is pending\<close>

text \<open>
  \<^verbatim>\<open>syncAll\<close> is asynchronous: between its first statement and its last ones the page
  handles other events. The calls that have started and not yet finished are kept beside
  the state, each with the positions it captured.
\<close>

record runtime =
  app_state :: app
  inflight :: "investment list list"

definition syncAll_begin :: "runtime \<Rightarrow> runtime" where
  "syncAll_begin rt =
     rt\<lparr> app_state := (app_state rt)\<lparr>isUpdating := True\<rparr>,
        inflight := inflight rt @ [investments (app_state rt)] \<rparr>"

definition syncAll_end :: "service \<Rightarrow> nat \<Rightarrow> runtime \<Rightarrow> runtime" where
  "syncAll_end env k rt =
     (if k < length (inflight rt) then
        rt\<lparr> app_state := syncAll_finish env (inflight rt ! k) (app_state rt),
           inflight := take k (inflight rt) @ drop (k + 1) (inflight rt) \<rparr>
      else rt)"

text \<open>
  The two buttons bound to \<^verbatim>\<open>syncAll\<close>: the one in the header carries
  \<^verbatim>\<open>disabled={isUpdating}\<close> (line 302), the one in the floating navigation does not
  (line 521).
\<close>

datatype button = HeaderRefresh | NavRefresh

fun click :: "button \<Rightarrow> runtime \<Rightarrow> runtime" where
  "click HeaderRefresh rt = (if isUpdating (app_state rt) then rt else syncAll_begin rt)"
| "click NavRefresh rt = syncAll_begin rt"

section \<open>Initial state and seed data (lines 140 to 171)\<close>

text \<open>The seed records, with the display names of the second position and of the two
  accounts written in English, and the clock value of the first render as \<open>t\<close>.\<close>

definition seed_investments :: "int \<Rightarrow> investment list" where
  "seed_investments t =
     [ \<lparr> inv_id = 1, symbol = ''VOO'', name = ''S&P 500 ETF'', currency = ''USD'',
         currentPrice = JNum (Fin 512), exchangeRate = JNum (Fin 7.82),
         overrideShares = JNum (Fin 10), initialPurchasePrice = JNum (Fin 480),
         targetAllocation = Fin 60, lastUpdated = Some t, dataSource = None \<rparr>,
       \<lparr> inv_id = 2, symbol = ''2800.HK'', name = ''Tracker Fund'', currency = ''HKD'',
         currentPrice = JNum (Fin 18.5), exchangeRate = JNum (Fin 1),
         overrideShares = JNum (Fin 2000), initialPurchasePrice = JNum (Fin 17.5),
         targetAllocation = Fin 40, lastUpdated = Some t, dataSource = None \<rparr> ]"

definition seed_accounts :: "assetAccount list" where
  "seed_accounts =
     [ \<lparr> acc_id = 1, acc_name = ''Cash (HKD)'', acc_currency = ''HKD'',
         amount = JNum (Fin 50000), acc_exchangeRate = JNum (Fin 1),
         autoFromInvestments = None \<rparr>,
       \<lparr> acc_id = 2, acc_name = ''US brokerage'', acc_currency = ''USD'',
         amount = JNull, acc_exchangeRate = JNum (Fin 7.82),
         autoFromInvestments = Some True \<rparr> ]"

definition seeded_app :: "int \<Rightarrow> app" where
  "seeded_app t =
     \<lparr> investments = seed_investments t, accounts = seed_accounts,
       monthlyBudget = Fin 10000, baseCurrency = HKD, hkdTwdRate = Fin 4.15,
       isUpdating = False, sources = [] \<rparr>"

section \<open>The specification's formulas\<close>






text \<open>
  A numeric field is missing when it is \<^verbatim>\<open>null\<close>, absent or \<^verbatim>\<open>NaN\<close>; filling in the
  defaults writes 0 into a missing price, share count or purchase price and 1 into a
  missing exchange rate, and leaves every other field as it is.
\<close>

definition missing :: "jsval \<Rightarrow> bool" where
  "missing v = (v = JNull \<or> v = JUndefined \<or> v = JNum NaN)"

definition fill :: "jsval \<Rightarrow> jsnum \<Rightarrow> jsval" where
  "fill v d = (if missing v then JNum d else v)"

definition fillDefaults :: "'a investment_scheme \<Rightarrow> 'a investment_scheme" where
  "fillDefaults iv =
     iv\<lparr> currentPrice := fill (currentPrice iv) (Fin 0),
        overrideShares := fill (overrideShares iv) (Fin 0),
        initialPurchasePrice := fill (initialPurchasePrice iv) (Fin 0),
        exchangeRate := fill (exchangeRate iv) (Fin 1) \<rparr>"

definition fillAccountDefaults :: "'a assetAccount_scheme \<Rightarrow> 'a assetAccount_scheme" where
  "fillAccountDefaults acc = acc\<lparr> acc_exchangeRate := fill (acc_exchangeRate acc) (Fin 1) \<rparr>"

definition withDefaults :: "app \<Rightarrow> app" where
  "withDefaults s =
     s\<lparr> investments := map fillDefaults (investments s),
        accounts := map fillAccountDefaults (accounts s) \<rparr>"

section \<open>Example inputs\<close>

text \<open>A position as the form stores it when the price lookup fails and no purchase
  price is entered.\<close>

definition unpriced :: investment where
  "unpriced = \<lparr> inv_id = 3, symbol = ''AAPL'', name = ''Searching...'', currency = ''USD'',
     currentPrice = JNum (Fin 0), exchangeRate = JNum (Fin 7.82),
     overrideShares = JNum (Fin 5), initialPurchasePrice = JNum (Fin 0),
     targetAllocation = Fin 50, lastUpdated = None, dataSource = None \<rparr>"

text \<open>A lookup service that knows the second seed position only and whose rate request
  fails.\<close>

definition example_service :: service where
  "example_service =
     \<lparr> rateResponse = None,
       priceResponse = (\<lambda>i ticker.
          if ticker = ''2800.HK''
          then Some \<lparr> price = Fin 19, res_name = ''Tracker Fund of Hong Kong'',
                      res_currency = ''HKD'', sourceUrls = [] \<rparr>
          else None),
       now = (\<lambda>i. 1000) \<rparr>"

section \<open>Arithmetic with the special values\<close>

lemmas figure_defs = shares_of_def rateToHkd_def currentPrice_of_def buyPrice_of_def
  valueHKD_def costHKD_def profitHKD_def profitPct_of_def

lemma minus_Fin_zero: "x - Fin 0 = (x::jsnum)"
  by (cases x) simp_all


lemma zero_times_not_pos: "\<not> Fin 0 < Fin 0 * x * y"
  by (cases x; cases y) (simp_all add: inf_of_sign_def)

lemma times_zero_not_pos: "\<not> Fin 0 < x * Fin 0 * y"
  by (cases x; cases y) (simp_all add: inf_of_sign_def)

lemma or_default_nonzero: "d \<noteq> Fin 0 \<Longrightarrow> or_default v d \<noteq> Fin 0"
  by (cases v) (simp_all add: truthy_def)


lemma minus_scale: "0 < k \<Longrightarrow> (a - b) * Fin k = a * Fin k - b * Fin k"
  by (cases a; cases b) (simp_all add: inf_of_sign_def algebra_simps)





section \<open>Fields of the computed objects\<close>



lemma invDetail_fields:
  "shares (invDetail s iv) = shares_of iv"
  "buyPrice (invDetail s iv) = buyPrice_of iv"
  "costBase (invDetail s iv) = toBase s (costHKD iv)"
  "valueBase (invDetail s iv) = toBase s (valueHKD iv)"
  "profitBase (invDetail s iv) = toBase s (profitHKD iv)"
  "profitPct (invDetail s iv) = profitPct_of iv"
  by (simp_all add: invDetail_def investment.defs)

lemma advise_fields:
  "suggest (advise s d) = suggest_of s d"
  "gap (advise s d) = gap_of s d"
  "currentPct (advise s d) = currentPct_of s d"
  by (simp_all add: advise_def inv_detail.defs)


section \<open>Position valuation\<close>


section \<open>Portfolio totals\<close>

text \<open>
  C9. With no positions the sum of the positions' base values is exactly 0, and the
  liquid cash, total assets minus total invested, is then the total of the accounts.
\<close>

theorem empty_positions_total:
  "totalInvBase (s\<lparr>investments := []\<rparr>) = Fin 0
   \<and> liquidCashBase (s\<lparr>investments := []\<rparr>) = totalAssetsBase (s\<lparr>investments := []\<rparr>)"
  by (simp add: liquidCashBase_def totalInvBase_def invDetails_def minus_Fin_zero)

section \<open>Guards of the divisions\<close>

lemma or_default_zero: "or_default (JNum (Fin 0)) d = d"
  by (simp add: truthy_def)

lemma profitPct_of_zero_cost: "\<not> Fin 0 < costHKD iv \<Longrightarrow> profitPct_of iv = Fin 0"
  by (simp add: profitPct_of_def)

text \<open>
  C4. The three divisions the specification names are guarded and fall back to 0: a
  position whose cost in the anchor currency is 0, in particular one whose purchase
  price or share count is 0, has profit percentage exactly 0; a unit price of 0 in the
  base currency gives 0 suggested shares; a total invested of 0 gives a current
  allocation of 0. The result is the finite number 0, not NaN or an infinity.
\<close>

theorem division_hazards_guarded:
  "(costHKD iv = Fin 0 \<longrightarrow> profitPct (invDetail s iv) = Fin 0)
   \<and> (initialPurchasePrice iv = JNum (Fin 0) \<or> overrideShares iv = JNum (Fin 0)
        \<longrightarrow> profitPct (invDetail s iv) = Fin 0)
   \<and> (priceBase s d = Fin 0 \<longrightarrow> suggest (advise s d) = Fin 0)
   \<and> (totalInvBase s = Fin 0 \<longrightarrow> currentPct (advise s d) = Fin 0)"
proof -
  have a: "costHKD iv = Fin 0 \<longrightarrow> profitPct_of iv = Fin 0"
    by (simp add: profitPct_of_def)
  have b: "initialPurchasePrice iv = JNum (Fin 0) \<longrightarrow> profitPct_of iv = Fin 0"
    by (simp add: profitPct_of_zero_cost costHKD_def buyPrice_of_def or_default_zero
          times_zero_not_pos)
  have c: "overrideShares iv = JNum (Fin 0) \<longrightarrow> profitPct_of iv = Fin 0"
    by (simp add: profitPct_of_zero_cost costHKD_def shares_of_def or_default_zero
          zero_times_not_pos)
  have p: "priceBase s d = Fin 0 \<longrightarrow> suggest_of s d = Fin 0"
    by (simp add: suggest_of_def)
  have t: "totalInvBase s = Fin 0 \<longrightarrow> currentPct_of s d = Fin 0"
    by (simp add: currentPct_of_def)
  from a b c p t show ?thesis
    by (simp add: invDetail_fields advise_fields)
qed

theorem division_hazards_guarded_witness:
  "costHKD unpriced = Fin 0
   \<and> initialPurchasePrice unpriced = JNum (Fin 0)
   \<and> profitPct (invDetail (seeded_app 0\<lparr>investments := [unpriced]\<rparr>) unpriced) = Fin 0
   \<and> priceBase (seeded_app 0\<lparr>investments := [unpriced]\<rparr>)
        (invDetail (seeded_app 0\<lparr>investments := [unpriced]\<rparr>) unpriced) = Fin 0
   \<and> suggest (advise (seeded_app 0\<lparr>investments := [unpriced]\<rparr>)
        (invDetail (seeded_app 0\<lparr>investments := [unpriced]\<rparr>) unpriced)) = Fin 0
   \<and> totalInvBase (seeded_app 0\<lparr>investments := [unpriced]\<rparr>) = Fin 0
   \<and> currentPct (advise (seeded_app 0\<lparr>investments := [unpriced]\<rparr>)
        (invDetail (seeded_app 0\<lparr>investments := [unpriced]\<rparr>) unpriced)) = Fin 0"
proof -
  let ?s = "seeded_app 0\<lparr>investments := [unpriced]\<rparr>"
  have c: "costHKD unpriced = Fin 0"
    by (simp add: unpriced_def costHKD_def shares_of_def buyPrice_of_def rateToHkd_def truthy_def)
  have i: "initialPurchasePrice unpriced = JNum (Fin 0)"
    by (simp add: unpriced_def)
  have p: "priceBase ?s (invDetail ?s unpriced) = Fin 0"
    by (simp add: priceBase_def priceHKD_def toBase_def seeded_app_def invDetail_def
          investment.defs unpriced_def truthy_def)
  have t: "totalInvBase ?s = Fin 0"
    by (simp add: totalInvBase_def invDetails_def invDetail_fields toBase_def seeded_app_def
          valueHKD_def shares_of_def currentPrice_of_def rateToHkd_def unpriced_def truthy_def)
  from c i p t division_hazards_guarded [of unpriced ?s "invDetail ?s unpriced"]
  show ?thesis by simp
qed

section \<open>A stored exchange rate of zero\<close>

text \<open>
  C10. A stored exchange rate of exactly 0 is read as 1 wherever it is used: in the
  valuation of a position, in the aggregation of an account (the amount of an
  auto-derived account is the invested total divided by 1) and in the unit price of the
  rebalancing advice. Each result is the one for a stored rate of 1, apart from the
  stored field itself, which is carried over; the divisor of the auto-derived branch is
  never 0.
\<close>

theorem zero_rate_treated_as_one:
  "rateToHkd (iv\<lparr>exchangeRate := JNum (Fin 0)\<rparr>) = Fin 1
   \<and> invDetail s (iv\<lparr>exchangeRate := JNum (Fin 0)\<rparr>)
       = (invDetail s (iv\<lparr>exchangeRate := JNum (Fin 1)\<rparr>))\<lparr>exchangeRate := JNum (Fin 0)\<rparr>
   \<and> acc_rateToHkd (acc\<lparr>acc_exchangeRate := JNum (Fin 0)\<rparr>) = Fin 1
   \<and> acc_rateToHkd acc \<noteq> Fin 0
   \<and> amount_of s (acc\<lparr>acc_exchangeRate := JNum (Fin 0), autoFromInvestments := Some True\<rparr>)
       = totalInvHKD s / Fin 1
   \<and> processAccount s (acc\<lparr>acc_exchangeRate := JNum (Fin 0)\<rparr>)
       = (processAccount s (acc\<lparr>acc_exchangeRate := JNum (Fin 1)\<rparr>))
           \<lparr>acc_exchangeRate := JNum (Fin 0)\<rparr>
   \<and> priceHKD (d\<lparr>exchangeRate := JNum (Fin 0)\<rparr>) = to_number (currentPrice d) * Fin 1
   \<and> advise s (d\<lparr>exchangeRate := JNum (Fin 0)\<rparr>)
       = (advise s (d\<lparr>exchangeRate := JNum (Fin 1)\<rparr>))\<lparr>exchangeRate := JNum (Fin 0)\<rparr>"
proof -
  have a: "invDetail s (iv\<lparr>exchangeRate := JNum (Fin 0)\<rparr>)
       = (invDetail s (iv\<lparr>exchangeRate := JNum (Fin 1)\<rparr>))\<lparr>exchangeRate := JNum (Fin 0)\<rparr>"
    by (simp add: invDetail_def investment.defs figure_defs truthy_def)
  have b: "processAccount s (acc\<lparr>acc_exchangeRate := JNum (Fin 0)\<rparr>)
       = (processAccount s (acc\<lparr>acc_exchangeRate := JNum (Fin 1)\<rparr>))
           \<lparr>acc_exchangeRate := JNum (Fin 0)\<rparr>"
    by (simp add: processAccount_def assetAccount.defs amountHKD_def amount_of_def
          acc_rateToHkd_def truthy_def)
  have c: "advise s (d\<lparr>exchangeRate := JNum (Fin 0)\<rparr>)
       = (advise s (d\<lparr>exchangeRate := JNum (Fin 1)\<rparr>))\<lparr>exchangeRate := JNum (Fin 0)\<rparr>"
    by (simp add: advise_def inv_detail.defs suggest_of_def gap_of_def targetVal_def
          currentPct_of_def priceBase_def priceHKD_def truthy_def)
  have n: "acc_rateToHkd acc \<noteq> Fin 0"
    by (simp add: acc_rateToHkd_def or_default_nonzero)
  have r: "rateToHkd (iv\<lparr>exchangeRate := JNum (Fin 0)\<rparr>) = Fin 1"
    "acc_rateToHkd (acc\<lparr>acc_exchangeRate := JNum (Fin 0)\<rparr>) = Fin 1"
    "amount_of s (acc\<lparr>acc_exchangeRate := JNum (Fin 0), autoFromInvestments := Some True\<rparr>)
       = totalInvHKD s / Fin 1"
    "priceHKD (d\<lparr>exchangeRate := JNum (Fin 0)\<rparr>) = to_number (currentPrice d) * Fin 1"
    by (simp_all add: rateToHkd_def acc_rateToHkd_def amount_of_def priceHKD_def truthy_def)
  from a b c n r show ?thesis by simp
qed

section \<open>Projected total of the rebalancing advice\<close>

lemma totalFutureValueBase_HKD:
  "baseCurrency s = HKD \<Longrightarrow> totalFutureValueBase s = totalInvBase s + monthlyBudget s"
  by (simp add: totalFutureValueBase_def toBase_def)

text \<open>
  C2. The projected total should be the total invested plus the monthly contribution
  taken as it is in the base currency. On the seed data with the base currency switched
  to TWD (rate 4.15) and the contribution 10000, the total invested is 319709.36 and the
  code's projected total is 361209.36, that is 319709.36 + 10000 * 4.15, and not
  319709.36 + 10000 = 329709.36: the contribution is converted as if it were an anchor
  amount.
\<close>

theorem budget_converted_from_anchor:
  "monthlyBudget (seeded_app t\<lparr>baseCurrency := TWD\<rparr>) = Fin 10000
   \<and> totalInvBase (seeded_app t\<lparr>baseCurrency := TWD\<rparr>) = Fin 319709.36
   \<and> totalFutureValueBase (seeded_app t\<lparr>baseCurrency := TWD\<rparr>) = Fin 361209.36"
proof -
  let ?s = "seeded_app t\<lparr>baseCurrency := TWD\<rparr>"
  have m: "monthlyBudget ?s = Fin 10000"
    by (simp add: seeded_app_def)
  have ti: "totalInvBase ?s = Fin 319709.36"
    by (simp add: totalInvBase_def invDetails_def invDetail_fields toBase_def seeded_app_def
          seed_investments_def valueHKD_def shares_of_def currentPrice_of_def rateToHkd_def
          truthy_def)
  have "totalFutureValueBase ?s = Fin 361209.36"
    unfolding totalFutureValueBase_def ti by (simp add: toBase_def seeded_app_def)
  with m ti show ?thesis by simp
qed

section \<open>Triggering a refresh while one is pending\<close>

text \<open>A call that begins and ends with no event in between is the sequential call.\<close>

lemma syncAll_as_events:
  "app_state (syncAll_end env 0 (syncAll_begin \<lparr>app_state = s, inflight = []\<rparr>)) = syncAll env s"
  by (simp add: syncAll_end_def syncAll_begin_def syncAll_def)

text \<open>
  C8. While a refresh is pending no second one should start. After one click of the
  navigation button the busy flag is set and one call is pending; the header button is
  then without effect, but a second click of the navigation button starts a second call
  of the refresh beside the first.
\<close>

theorem nav_refresh_starts_second_sync:
  "isUpdating (app_state (click NavRefresh \<lparr>app_state = s, inflight = []\<rparr>))
   \<and> length (inflight (click NavRefresh \<lparr>app_state = s, inflight = []\<rparr>)) = 1
   \<and> click HeaderRefresh (click NavRefresh \<lparr>app_state = s, inflight = []\<rparr>)
       = click NavRefresh \<lparr>app_state = s, inflight = []\<rparr>
   \<and> length (inflight (click NavRefresh (click NavRefresh \<lparr>app_state = s, inflight = []\<rparr>))) = 2"
  by (simp add: syncAll_begin_def)

section \<open>Currency invariance of the profit ratio\<close>





section \<open>Account aggregation\<close>








section \<open>Missing numeric fields\<close>

lemma or_default_fill: "or_default (fill v d) d = or_default v d"
  by (cases v) (simp_all add: fill_def missing_def truthy_def)

lemma fillDefaults_figures:
  "shares_of (fillDefaults iv) = shares_of iv"
  "rateToHkd (fillDefaults iv) = rateToHkd iv"
  "currentPrice_of (fillDefaults iv) = currentPrice_of iv"
  "buyPrice_of (fillDefaults iv) = buyPrice_of iv"
  by (simp_all add: fillDefaults_def shares_of_def rateToHkd_def currentPrice_of_def
        buyPrice_of_def or_default_fill)

lemma fillDefaults_money:
  "valueHKD (fillDefaults iv) = valueHKD iv"
  "costHKD (fillDefaults iv) = costHKD iv"
  "profitHKD (fillDefaults iv) = profitHKD iv"
  "profitPct_of (fillDefaults iv) = profitPct_of iv"
  by (simp_all add: valueHKD_def costHKD_def profitHKD_def profitPct_of_def fillDefaults_figures)

lemma invDetail_fillDefaults: "invDetail s (fillDefaults iv) = fillDefaults (invDetail s iv)"
  by (simp add: invDetail_def fillDefaults_money fillDefaults_figures)
     (simp add: fillDefaults_def investment.defs)

lemma toBase_withDefaults: "toBase (withDefaults s) x = toBase s x"
  by (simp add: toBase_def withDefaults_def)

lemma invDetail_withDefaults: "invDetail (withDefaults s) iv = invDetail s iv"
  by (simp add: invDetail_def toBase_withDefaults)

lemma investments_withDefaults:
  "investments (withDefaults s) = map fillDefaults (investments s)"
  by (simp add: withDefaults_def)

lemma invDetails_withDefaults: "invDetails (withDefaults s) = map fillDefaults (invDetails s)"
  by (simp add: invDetails_def invDetail_withDefaults investments_withDefaults
        invDetail_fillDefaults)

lemma valueBase_fillDefaults: "valueBase (fillDefaults d) = valueBase d"
  by (simp add: fillDefaults_def)

lemma totalInvBase_withDefaults: "totalInvBase (withDefaults s) = totalInvBase s"
  by (simp add: totalInvBase_def invDetails_withDefaults foldl_map valueBase_fillDefaults)


lemma priceHKD_missing:
  "missing (currentPrice d) \<Longrightarrow> \<not> Fin 0 < toBase s (priceHKD d)"
  by (cases "hkdTwdRate s"; cases "or_default (exchangeRate d) (Fin 1)")
     (auto simp add: missing_def priceHKD_def toBase_def inf_of_sign_def)

lemma priceHKD_filled_missing:
  "missing (currentPrice d) \<Longrightarrow> \<not> Fin 0 < toBase s (priceHKD (fillDefaults d))"
  by (cases "hkdTwdRate s"; cases "or_default (exchangeRate d) (Fin 1)")
     (auto simp add: fill_def fillDefaults_def priceHKD_def toBase_def inf_of_sign_def
        or_default_fill)

lemma priceHKD_present:
  "\<not> missing (currentPrice d) \<Longrightarrow> priceHKD (fillDefaults d) = priceHKD d"
  by (simp add: priceHKD_def fillDefaults_def or_default_fill) (simp add: fill_def)

lemma totalFutureValueBase_withDefaults:
  "totalFutureValueBase (withDefaults s) = totalFutureValueBase s"
  by (simp add: totalFutureValueBase_def totalInvBase_withDefaults toBase_withDefaults)
     (simp add: withDefaults_def)

lemma gap_of_fillDefaults: "gap_of (withDefaults s) (fillDefaults d) = gap_of s d"
  by (simp add: gap_of_def targetVal_def totalFutureValueBase_withDefaults
        valueBase_fillDefaults)
     (simp add: fillDefaults_def)

lemma suggest_of_fillDefaults: "suggest_of (withDefaults s) (fillDefaults d) = suggest_of s d"
proof (cases "missing (currentPrice d)")
  case True
  then show ?thesis
    by (simp add: suggest_of_def priceBase_def toBase_withDefaults priceHKD_missing
          priceHKD_filled_missing)
next
  case False
  then show ?thesis
    by (simp add: suggest_of_def priceBase_def toBase_withDefaults priceHKD_present
          gap_of_fillDefaults)
qed

lemma currentPct_of_fillDefaults:
  "currentPct_of (withDefaults s) (fillDefaults d) = currentPct_of s d"
  by (simp add: currentPct_of_def totalInvBase_withDefaults valueBase_fillDefaults)

lemma advise_fillDefaults: "advise (withDefaults s) (fillDefaults d) = fillDefaults (advise s d)"
  by (simp add: advise_def suggest_of_fillDefaults gap_of_fillDefaults currentPct_of_fillDefaults)
     (simp add: fillDefaults_def inv_detail.defs)

lemma rebalanceAdvice_withDefaults:
  "rebalanceAdvice (withDefaults s) = map fillDefaults (rebalanceAdvice s)"
  by (simp add: rebalanceAdvice_def invDetails_withDefaults advise_fillDefaults)

lemma totalInvHKD_withDefaults: "totalInvHKD (withDefaults s) = totalInvHKD s"
  by (simp add: totalInvHKD_def totalInvBase_withDefaults) (simp add: withDefaults_def)

lemma acc_rateToHkd_fill: "acc_rateToHkd (fillAccountDefaults acc) = acc_rateToHkd acc"
  by (simp add: acc_rateToHkd_def fillAccountDefaults_def or_default_fill)

lemma amount_of_fill: "amount_of (withDefaults s) (fillAccountDefaults acc) = amount_of s acc"
  by (simp add: amount_of_def totalInvHKD_withDefaults acc_rateToHkd_fill)
     (simp add: fillAccountDefaults_def)

lemma processAccount_fill:
  "processAccount (withDefaults s) (fillAccountDefaults acc)
     = fillAccountDefaults (processAccount s acc)"
  by (simp add: processAccount_def amountHKD_def amount_of_fill acc_rateToHkd_fill
        toBase_withDefaults)
     (simp add: fillAccountDefaults_def assetAccount.defs)

lemma processedAccounts_withDefaults:
  "processedAccounts (withDefaults s) = map fillAccountDefaults (processedAccounts s)"
proof -
  have "accounts (withDefaults s) = map fillAccountDefaults (accounts s)"
    by (simp add: withDefaults_def)
  then show ?thesis
    by (simp add: processedAccounts_def processAccount_fill)
qed

lemma amountBase_fill: "amountBase (fillAccountDefaults a) = amountBase a"
  by (simp add: fillAccountDefaults_def)

text \<open>
  C7. In the valuation of the positions, the aggregation of the accounts and the
  rebalancing advice, a price, share count or purchase price that is \<^verbatim>\<open>null\<close>, absent
  or \<^verbatim>\<open>NaN\<close> counts as 0 and such an exchange rate as 1: every computed object and total
  is the one computed from the records with these defaults filled in (the stored fields
  themselves are carried over unchanged). The computations are total functions: no
  input makes them fail.
\<close>

theorem missing_fields_read_as_defaults:
  "currentPrice_of (iv\<lparr>currentPrice := JNull\<rparr>) = Fin 0
   \<and> currentPrice_of (iv\<lparr>currentPrice := JUndefined\<rparr>) = Fin 0
   \<and> currentPrice_of (iv\<lparr>currentPrice := JNum NaN\<rparr>) = Fin 0
   \<and> shares_of (iv\<lparr>overrideShares := JNull\<rparr>) = Fin 0
   \<and> shares_of (iv\<lparr>overrideShares := JUndefined\<rparr>) = Fin 0
   \<and> shares_of (iv\<lparr>overrideShares := JNum NaN\<rparr>) = Fin 0
   \<and> buyPrice_of (iv\<lparr>initialPurchasePrice := JNull\<rparr>) = Fin 0
   \<and> buyPrice_of (iv\<lparr>initialPurchasePrice := JUndefined\<rparr>) = Fin 0
   \<and> buyPrice_of (iv\<lparr>initialPurchasePrice := JNum NaN\<rparr>) = Fin 0
   \<and> rateToHkd (iv\<lparr>exchangeRate := JNull\<rparr>) = Fin 1
   \<and> rateToHkd (iv\<lparr>exchangeRate := JUndefined\<rparr>) = Fin 1
   \<and> acc_rateToHkd (acc\<lparr>acc_exchangeRate := JNull\<rparr>) = Fin 1
   \<and> acc_rateToHkd (acc\<lparr>acc_exchangeRate := JUndefined\<rparr>) = Fin 1
   \<and> invDetails (withDefaults s) = map fillDefaults (invDetails s)
   \<and> processedAccounts (withDefaults s) = map fillAccountDefaults (processedAccounts s)
   \<and> rebalanceAdvice (withDefaults s) = map fillDefaults (rebalanceAdvice s)
   \<and> totalInvBase (withDefaults s) = totalInvBase s
   \<and> totalAssetsBase (withDefaults s) = totalAssetsBase s
   \<and> liquidCashBase (withDefaults s) = liquidCashBase s
   \<and> valueBase (invDetail (withDefaults s) (fillDefaults iv)) = valueBase (invDetail s iv)
   \<and> costBase (invDetail (withDefaults s) (fillDefaults iv)) = costBase (invDetail s iv)
   \<and> profitBase (invDetail (withDefaults s) (fillDefaults iv)) = profitBase (invDetail s iv)
   \<and> profitPct (invDetail (withDefaults s) (fillDefaults iv)) = profitPct (invDetail s iv)
   \<and> amount (processAccount (withDefaults s) (fillAccountDefaults acc))
       = amount (processAccount s acc)
   \<and> amountBase (processAccount (withDefaults s) (fillAccountDefaults acc))
       = amountBase (processAccount s acc)
   \<and> suggest (advise (withDefaults s) (fillDefaults d)) = suggest (advise s d)
   \<and> gap (advise (withDefaults s) (fillDefaults d)) = gap (advise s d)
   \<and> currentPct (advise (withDefaults s) (fillDefaults d)) = currentPct (advise s d)"
proof -
  have reads: "currentPrice_of (iv\<lparr>currentPrice := JNull\<rparr>) = Fin 0"
    "currentPrice_of (iv\<lparr>currentPrice := JUndefined\<rparr>) = Fin 0"
    "currentPrice_of (iv\<lparr>currentPrice := JNum NaN\<rparr>) = Fin 0"
    "shares_of (iv\<lparr>overrideShares := JNull\<rparr>) = Fin 0"
    "shares_of (iv\<lparr>overrideShares := JUndefined\<rparr>) = Fin 0"
    "shares_of (iv\<lparr>overrideShares := JNum NaN\<rparr>) = Fin 0"
    "buyPrice_of (iv\<lparr>initialPurchasePrice := JNull\<rparr>) = Fin 0"
    "buyPrice_of (iv\<lparr>initialPurchasePrice := JUndefined\<rparr>) = Fin 0"
    "buyPrice_of (iv\<lparr>initialPurchasePrice := JNum NaN\<rparr>) = Fin 0"
    "rateToHkd (iv\<lparr>exchangeRate := JNull\<rparr>) = Fin 1"
    "rateToHkd (iv\<lparr>exchangeRate := JUndefined\<rparr>) = Fin 1"
    "acc_rateToHkd (acc\<lparr>acc_exchangeRate := JNull\<rparr>) = Fin 1"
    "acc_rateToHkd (acc\<lparr>acc_exchangeRate := JUndefined\<rparr>) = Fin 1"
    by (simp_all add: currentPrice_of_def shares_of_def buyPrice_of_def rateToHkd_def
          acc_rateToHkd_def truthy_def)
  have assets: "totalAssetsBase (withDefaults s) = totalAssetsBase s"
    by (simp add: totalAssetsBase_def processedAccounts_withDefaults foldl_map amountBase_fill)
  have lists: "invDetails (withDefaults s) = map fillDefaults (invDetails s)"
    "processedAccounts (withDefaults s) = map fillAccountDefaults (processedAccounts s)"
    "rebalanceAdvice (withDefaults s) = map fillDefaults (rebalanceAdvice s)"
    "totalInvBase (withDefaults s) = totalInvBase s"
    "liquidCashBase (withDefaults s) = liquidCashBase s"
    by (simp_all add: invDetails_withDefaults processedAccounts_withDefaults
          rebalanceAdvice_withDefaults totalInvBase_withDefaults liquidCashBase_def assets)
  have position: "valueBase (invDetail (withDefaults s) (fillDefaults iv)) = valueBase (invDetail s iv)"
    "costBase (invDetail (withDefaults s) (fillDefaults iv)) = costBase (invDetail s iv)"
    "profitBase (invDetail (withDefaults s) (fillDefaults iv)) = profitBase (invDetail s iv)"
    "profitPct (invDetail (withDefaults s) (fillDefaults iv)) = profitPct (invDetail s iv)"
    by (simp_all add: invDetail_fields toBase_withDefaults fillDefaults_money)
  have account: "amount (processAccount (withDefaults s) (fillAccountDefaults acc))
       = amount (processAccount s acc)"
    "amountBase (processAccount (withDefaults s) (fillAccountDefaults acc))
       = amountBase (processAccount s acc)"
    by (simp_all add: processAccount_fill) (simp_all add: fillAccountDefaults_def)
  have advice: "suggest (advise (withDefaults s) (fillDefaults d)) = suggest (advise s d)"
    "gap (advise (withDefaults s) (fillDefaults d)) = gap (advise s d)"
    "currentPct (advise (withDefaults s) (fillDefaults d)) = currentPct (advise s d)"
    by (simp_all add: advise_fields suggest_of_fillDefaults gap_of_fillDefaults
          currentPct_of_fillDefaults)
  from reads assets lists position account advice show ?thesis
    by simp
qed

section \<open>Batch refresh\<close>

text \<open>The loop is unfolded one step at a time.\<close>

declare syncLoop.simps [simp del]


lemma syncLoop_length: "length (fst (syncLoop env i xs acc)) = length xs"
proof (induction env i xs acc rule: syncLoop.induct)
  case (1 env i xs acc)
  show ?case
  proof (cases "i < length xs")
    case False
    then show ?thesis
      by (subst syncLoop.simps) simp
  next
    case True
    show ?thesis
    proof (cases "fetchRealtimePrice env i (symbol (xs ! i))")
      case None
      with True "1.IH"(1) show ?thesis
        by (subst syncLoop.simps) simp
    next
      case (Some res)
      with True "1.IH"(2) show ?thesis
        by (subst syncLoop.simps) simp
    qed
  qed
qed

lemma syncLoop_nth:
  "j < length xs \<Longrightarrow>
   fst (syncLoop env i xs acc) ! j =
     (if j < i then xs ! j
      else (case fetchRealtimePrice env j (symbol (xs ! j)) of
              None \<Rightarrow> xs ! j
            | Some res \<Rightarrow> refreshed env j res (xs ! j)))"
proof (induction env i xs acc rule: syncLoop.induct)
  case (1 env i xs acc)
  show ?case
  proof (cases "i < length xs")
    case False
    with "1.prems" show ?thesis
      by (subst syncLoop.simps) simp
  next
    case True
    show ?thesis
    proof (cases "fetchRealtimePrice env i (symbol (xs ! i))")
      case None
      have "fst (syncLoop env i xs acc) = fst (syncLoop env (i + 1) xs acc)"
        using True None by (subst syncLoop.simps) simp
      with "1.IH"(1) [OF True None "1.prems"] None show ?thesis
        by (cases "j = i") (auto simp add: less_Suc_eq)
    next
      case (Some res)
      let ?xs = "xs[i := refreshed env i res (xs ! i)]"
      have step: "fst (syncLoop env i xs acc)
                    = fst (syncLoop env (i + 1) ?xs (acc @ sourceUrls res))"
        using True Some by (subst syncLoop.simps) simp
      from "1.prems" have j: "j < length ?xs"
        by simp
      note ih = "1.IH"(2) [OF True Some j]
      show ?thesis
      proof (cases "j = i")
        case True
        with ih step Some \<open>i < length xs\<close> show ?thesis
          by simp
      next
        case False
        with ih step show ?thesis
          by (auto simp add: less_Suc_eq split: option.split)
      qed
    qed
  qed
qed

lemma investments_syncAll: "investments (syncAll env s) = fst (syncLoop env 0 (investments s) [])"
  by (simp add: syncAll_def syncAll_finish_def split: prod.split)

lemma refreshed_frame:
  "inv_id (refreshed env i res iv) = inv_id iv"
  "symbol (refreshed env i res iv) = symbol iv"
  "exchangeRate (refreshed env i res iv) = exchangeRate iv"
  "overrideShares (refreshed env i res iv) = overrideShares iv"
  "initialPurchasePrice (refreshed env i res iv) = initialPurchasePrice iv"
  "targetAllocation (refreshed env i res iv) = targetAllocation iv"
  by (simp_all add: refreshed_def)

text \<open>
  C5. After a batch refresh the list of positions has the same length; a position whose
  lookup returned \<^verbatim>\<open>null\<close> is the same record as before (so its price, name and
  currency are unchanged), whatever happened to the others; a position whose lookup
  succeeded differs from the old record in the price, the name, the currency, the time
  of the update and the data source only. In both cases the id, the symbol, the
  exchange rate, the share count, the purchase price and the target allocation are
  unchanged.
\<close>

theorem batch_refresh_frame:
  assumes "i < length (investments s)"
  shows "length (investments (syncAll env s)) = length (investments s)
    \<and> (fetchRealtimePrice env i (symbol (investments s ! i)) = None
         \<longrightarrow> investments (syncAll env s) ! i = investments s ! i)
    \<and> (\<forall>res. fetchRealtimePrice env i (symbol (investments s ! i)) = Some res
         \<longrightarrow> investments (syncAll env s) ! i
               = (investments s ! i)
                   \<lparr> currentPrice := JNum (price res),
                     name := res_name res,
                     currency := res_currency res,
                     lastUpdated := Some (now env i),
                     dataSource := Some ''Google Search API'' \<rparr>)
    \<and> inv_id (investments (syncAll env s) ! i) = inv_id (investments s ! i)
    \<and> symbol (investments (syncAll env s) ! i) = symbol (investments s ! i)
    \<and> exchangeRate (investments (syncAll env s) ! i) = exchangeRate (investments s ! i)
    \<and> overrideShares (investments (syncAll env s) ! i) = overrideShares (investments s ! i)
    \<and> initialPurchasePrice (investments (syncAll env s) ! i)
        = initialPurchasePrice (investments s ! i)
    \<and> targetAllocation (investments (syncAll env s) ! i) = targetAllocation (investments s ! i)"
proof -
  let ?old = "investments s ! i"
  have new: "investments (syncAll env s) ! i =
     (case fetchRealtimePrice env i (symbol ?old) of
        None \<Rightarrow> ?old | Some res \<Rightarrow> refreshed env i res ?old)"
    using syncLoop_nth [OF assms, of env 0 "[]"] by (simp add: investments_syncAll)
  have len: "length (investments (syncAll env s)) = length (investments s)"
    by (simp add: investments_syncAll syncLoop_length)
  show ?thesis
  proof (cases "fetchRealtimePrice env i (symbol ?old)")
    case None
    with new len show ?thesis by simp
  next
    case (Some res)
    with new len show ?thesis
      by (simp add: refreshed_frame) (simp add: refreshed_def)
  qed
qed

theorem batch_refresh_frame_witness:
  "(0::nat) < length (investments (seeded_app 0))
   \<and> fetchRealtimePrice example_service 0 (symbol (investments (seeded_app 0) ! 0)) = None
   \<and> investments (syncAll example_service (seeded_app 0)) ! 0 = investments (seeded_app 0) ! 0
   \<and> (1::nat) < length (investments (seeded_app 0))
   \<and> fetchRealtimePrice example_service 1 (symbol (investments (seeded_app 0) ! 1)) \<noteq> None
   \<and> currentPrice (investments (syncAll example_service (seeded_app 0)) ! 1) = JNum (Fin 19)
   \<and> exchangeRate (investments (syncAll example_service (seeded_app 0)) ! 1) = JNum (Fin 1)
   \<and> length (investments (syncAll example_service (seeded_app 0))) = 2"
proof -
  let ?s = "seeded_app 0"
  have l0: "(0::nat) < length (investments ?s)" and l1: "(1::nat) < length (investments ?s)"
    by (simp_all add: seeded_app_def seed_investments_def)
  have f0: "fetchRealtimePrice example_service 0 (symbol (investments ?s ! 0)) = None"
    by (simp add: fetchRealtimePrice_def example_service_def seeded_app_def seed_investments_def)
  have f1: "fetchRealtimePrice example_service 1 (symbol (investments ?s ! 1))
      = Some \<lparr> price = Fin 19, res_name = ''Tracker Fund of Hong Kong'',
                res_currency = ''HKD'', sourceUrls = [] \<rparr>"
    by (simp add: fetchRealtimePrice_def example_service_def seeded_app_def seed_investments_def)
  have r: "exchangeRate (investments ?s ! 1) = JNum (Fin 1)" "length (investments ?s) = 2"
    by (simp_all add: seeded_app_def seed_investments_def)
  from batch_refresh_frame [OF l0, of example_service]
    batch_refresh_frame [OF l1, of example_service] l0 l1 f0 f1 r
  show ?thesis by simp
qed

end
